theory Spec2Isabelle
  imports Complex_Main
begin

section \<open>The Bella interpreter: syntax trees and values\<close>

text \<open>
  The repository holds three versions of one tree-walking interpreter, each a set of
  TypeScript classes with an \<open>interpret\<close> method. The most complete one
  (\<open>src/unnamed/part_000\<close>) keeps its variables in one global \<open>memory\<close> map; it is the
  main model here. The second program of \<open>src/bella.ts\<close> passes the map as an argument;
  it is modelled further down, with the prefix \<open>B_\<close>.

  The type \<open>'n\<close> stands for the numbers of the host (JavaScript's \<open>number\<close>).
\<close>

datatype 'n Expression =
    BinaryExp string "'n Expression" "'n Expression"
  | UnaryExp string "'n Expression"
  | ConditionalExpression "'n Expression" "'n Expression" "'n Expression"
  | Call string "'n Expression list"
  | ArrayLiteral "'n Expression list"
  | Subscript "'n Expression" "'n Expression"
  | Identifier string
  | Numeral 'n
  | Bool bool

text \<open>
  Every syntax class with an \<open>interpret\<close> method fits the interface \<open>Statement\<close>; the
  sample program of the source puts a \<open>Call\<close> into a \<open>Block\<close>. \<open>ExpressionStatement\<close>
  stands for an expression used in that way. A \<open>Block\<close> is its list of statements.
\<close>

datatype 'n Statement =
    VariableDeclaration string "'n Expression"
  | Assignment string "'n Expression"
  | PrintStatement "'n Expression"
  | While "'n Expression" "'n Statement list"
  | FunctionStatement string "'n Expression list" "'n Expression"
  | ExpressionStatement "'n Expression"

datatype 'n Program = Program "'n Statement list"

text \<open>The five functions of the host that \<open>Program.interpret\<close> binds.\<close>

datatype native = Math_sin | Math_cos | Math_hypot | Math_sqrt | Math_exp

text \<open>
  The values at run time. The source's type \<open>Value\<close> is
  \<open>number | boolean | Value[] | function | [Identifier[], Expression]\<close>. The last
  variant, what \<open>FunctionStatement\<close> stores, is at run time an array of two objects:
  \<open>Array [Array (map Object args), Object body]\<close>. \<open>Undefined\<close> is what the host
  returns for a missing map key or array element.
\<close>

datatype 'n Value =
    Number 'n
  | Boolean bool
  | Array "'n Value list"
  | Function native
  | Object "'n Expression"
  | Undefined

fun typeof :: "'n Value \<Rightarrow> string" where
  "typeof (Number n) = ''number''"
| "typeof (Boolean b) = ''boolean''"
| "typeof (Array vs) = ''object''"
| "typeof (Function f) = ''function''"
| "typeof (Object e) = ''object''"
| "typeof Undefined = ''undefined''"

section \<open>The host\<close>

text \<open>
  The arithmetic of JavaScript numbers (IEEE-754 doubles) and the \<open>Math\<close> library are not
  part of the repository. They are a parameter of the model: every general theorem below
  holds for any host.
\<close>

datatype arith = Add | Sub | Mul | Div | Rem | Pow

datatype rel = Lt | Le | StrictEq | Ge | Gt

record 'n host =
  arithmetic :: "arith \<Rightarrow> 'n \<Rightarrow> 'n \<Rightarrow> 'n"
    \<comment> \<open>\<open>a + b\<close>, \<open>a - b\<close>, \<open>a * b\<close>, \<open>a / b\<close>, \<open>a % b\<close>, \<open>a ** b\<close> on two numbers\<close>
  relation :: "rel \<Rightarrow> 'n \<Rightarrow> 'n \<Rightarrow> bool"
    \<comment> \<open>\<open>a < b\<close>, \<open>a <= b\<close>, \<open>a === b\<close>, \<open>a >= b\<close>, \<open>a > b\<close> on two numbers\<close>
  negate :: "'n \<Rightarrow> 'n"
    \<comment> \<open>unary minus on a number\<close>
  ToBoolean_number :: "'n \<Rightarrow> bool"
    \<comment> \<open>truthiness of a number: false for zero and NaN\<close>
  ToNumber :: "'n Value \<Rightarrow> 'n"
    \<comment> \<open>the coercion the host applies to an operand that is not a number\<close>
  array_index :: "'n \<Rightarrow> nat option"
    \<comment> \<open>the array index a number denotes as a property key, if it denotes one\<close>
  Math_call :: "native \<Rightarrow> 'n Value list \<Rightarrow> 'n"
    \<comment> \<open>a \<open>Math\<close> function applied to its actual arguments\<close>
  Math_PI :: 'n
  Math_LN10 :: 'n

fun truthy :: "'n host \<Rightarrow> 'n Value \<Rightarrow> bool" where
  "truthy H (Number n) = ToBoolean_number H n"
| "truthy H (Boolean b) = b"
| "truthy H Undefined = False"
| "truthy H (Array vs) = True"
| "truthy H (Function f) = True"
| "truthy H (Object e) = True"

fun to_number :: "'n host \<Rightarrow> 'n Value \<Rightarrow> 'n" where
  "to_number H (Number n) = n"
| "to_number H v = ToNumber H v"

section \<open>Errors\<close>

text \<open>
  The source throws \<open>Error\<close> with a message. Each constructor is one message of the
  source; its argument is the name or operator the message ends with.
\<close>

datatype error =
    Variable_already_declared string
  | Unknown_variable string
  | Must_be_a_number
  | Unknown_operator string
  | Value_is_not_a_function string
  | Subscripted_item_must_be_an_array
  | Subscript_value_must_be_a_number
  | Variable_is_not_a_number string
  | Unknown_function string

text \<open>
  The source has the one class \<open>Error\<close>; the specification (section 7) speaks of error
  kinds. \<open>kind\<close> reads each message of the source as the kind of the specification it
  falls under: a wrong variant of a value is a \<open>TypeError\<close>, a call of something that
  is no function a \<open>NotCallableError\<close>. No message of the source is an
  \<open>ArityMismatchError\<close> or an \<open>IndexOutOfRangeError\<close>.
\<close>

datatype error_kind =
    RedeclarationError
  | UnboundVariableError
  | TypeError
  | UnknownOperatorError
  | NotCallableError
  | ArityMismatchError
  | IndexOutOfRangeError

fun kind :: "error \<Rightarrow> error_kind" where
  "kind (Variable_already_declared x) = RedeclarationError"
| "kind (Unknown_variable x) = UnboundVariableError"
| "kind Must_be_a_number = TypeError"
| "kind (Unknown_operator x) = UnknownOperatorError"
| "kind (Value_is_not_a_function x) = NotCallableError"
| "kind Subscripted_item_must_be_an_array = TypeError"
| "kind Subscript_value_must_be_a_number = TypeError"
| "kind (Variable_is_not_a_number x) = TypeError"
| "kind (Unknown_function x) = NotCallableError"

section \<open>Expressions of \<open>part_000\<close>\<close>

text \<open>
  \<open>memory\<close> is a \<open>Map<string, Value>\<close>. \<open>memory.has k\<close> is \<open>m k \<noteq> None\<close>,
  \<open>memory.set(k, v)\<close> is \<open>m(k \<mapsto> v)\<close>, and \<open>memory.get(k)\<close> is \<open>Memory_get\<close>:
  \<open>undefined\<close> for a missing key.
\<close>

type_synonym 'n Memory = "string \<rightharpoonup> 'n Value"

definition Memory_get :: "'n Memory \<Rightarrow> string \<Rightarrow> 'n Value" where
  "Memory_get m k = (case m k of None \<Rightarrow> Undefined | Some v \<Rightarrow> v)"

definition Memory_has :: "'n Memory \<Rightarrow> string \<Rightarrow> bool" where
  "Memory_has m k = (case m k of None \<Rightarrow> False | Some v \<Rightarrow> True)"

text \<open>
  \<open>BinaryExp.interpret\<close> once both operands have a value: the \<open>typeof\<close> test, the
  first \<open>switch\<close> (arithmetic), and the second \<open>switch\<close>, reached by the operators the
  first one has no case for.
\<close>

fun BinaryExp_operate :: "'n host \<Rightarrow> string \<Rightarrow> 'n Value \<Rightarrow> 'n Value \<Rightarrow> error + 'n Value" where
  "BinaryExp_operate H op (Number left) (Number right) =
     (if op = ''+'' then Inr (Number (arithmetic H Add left right))
      else if op = ''-'' then Inr (Number (arithmetic H Sub left right))
      else if op = ''*'' then Inr (Number (arithmetic H Mul left right))
      else if op = ''/'' then Inr (Number (arithmetic H Div left right))
      else if op = ''%'' then Inr (Number (arithmetic H Rem left right))
      else if op = ''**'' then Inr (Number (arithmetic H Pow left right))
      else if op = ''<'' then Inr (Boolean (relation H Lt left right))
      else if op = ''<='' then Inr (Boolean (relation H Le left right))
      else if op = ''=='' then Inr (Boolean (relation H StrictEq left right))
      else if op = ''!='' then Inr (Boolean (\<not> relation H StrictEq left right))
      else if op = ''>='' then Inr (Boolean (relation H Ge left right))
      else if op = ''>'' then Inr (Boolean (relation H Gt left right))
      else if op = ''&&'' then
        Inr (if ToBoolean_number H left then Number right else Number left)
      else if op = ''||'' then
        Inr (if ToBoolean_number H left then Number left else Number right)
      else Inl (Unknown_operator op))"
| "BinaryExp_operate H op left right = Inl Must_be_a_number"

text \<open>
  \<open>Array.isArray\<close>, and \<open>arrayValue[subscriptValue]\<close> for an array and a number: the
  element, or \<open>undefined\<close> when the number is no index of the array. The host raises
  no error there.
\<close>

fun isArray :: "'n Value \<Rightarrow> bool" where
  "isArray (Array vs) = True"
| "isArray v = False"

fun Array_get :: "'n host \<Rightarrow> 'n Value \<Rightarrow> 'n Value \<Rightarrow> 'n Value" where
  "Array_get H (Array vs) (Number n) =
     (case array_index H n of
        None \<Rightarrow> Undefined
      | Some i \<Rightarrow> if i < length vs then vs ! i else Undefined)"
| "Array_get H arrayValue subscriptValue = Undefined"

text \<open>\<open>Subscript.interpret\<close> once both operands have a value.\<close>

definition Subscript_operate :: "'n host \<Rightarrow> 'n Value \<Rightarrow> 'n Value \<Rightarrow> error + 'n Value" where
  "Subscript_operate H arrayValue subscriptValue =
     (if \<not> isArray arrayValue then Inl Subscripted_item_must_be_an_array
      else if typeof subscriptValue \<noteq> ''number'' then Inl Subscript_value_must_be_a_number
      else Inr (Array_get H arrayValue subscriptValue))"

fun Expression_interpret :: "'n host \<Rightarrow> 'n Memory \<Rightarrow> 'n Expression \<Rightarrow> error + 'n Value"
  and interpret_each :: "'n host \<Rightarrow> 'n Memory \<Rightarrow> 'n Expression list \<Rightarrow> error + 'n Value list"
where
  "Expression_interpret H m (BinaryExp op l r) =
     (case Expression_interpret H m l of
        Inl e \<Rightarrow> Inl e
      | Inr left \<Rightarrow>
          (case Expression_interpret H m r of
             Inl e \<Rightarrow> Inl e
           | Inr right \<Rightarrow> BinaryExp_operate H op left right))"
| "Expression_interpret H m (UnaryExp op operand) =
     (if op = ''-'' then
        (case Expression_interpret H m operand of
           Inl e \<Rightarrow> Inl e
         | Inr v \<Rightarrow> Inr (Number (negate H (to_number H v))))
      else if op = ''!'' then
        (case Expression_interpret H m operand of
           Inl e \<Rightarrow> Inl e
         | Inr v \<Rightarrow> Inr (Boolean (\<not> truthy H v)))
      else Inl (Unknown_operator op))"
| "Expression_interpret H m (ConditionalExpression test consequent alternate) =
     (case Expression_interpret H m test of
        Inl e \<Rightarrow> Inl e
      | Inr v \<Rightarrow>
          if truthy H v then Expression_interpret H m consequent
          else Expression_interpret H m alternate)"
| "Expression_interpret H m (Call callee args) =
     (case Memory_get m callee of
        Function f \<Rightarrow>
          (case interpret_each H m args of
             Inl e \<Rightarrow> Inl e
           | Inr vs \<Rightarrow> Inr (Number (Math_call H f [Array vs])))
      | _ \<Rightarrow> Inl (Value_is_not_a_function callee))"
| "Expression_interpret H m (ArrayLiteral elements) =
     (case interpret_each H m elements of
        Inl e \<Rightarrow> Inl e
      | Inr vs \<Rightarrow> Inr (Array vs))"
| "Expression_interpret H m (Subscript array subscript) =
     (case Expression_interpret H m array of
        Inl e \<Rightarrow> Inl e
      | Inr arrayValue \<Rightarrow>
          (case Expression_interpret H m subscript of
             Inl e \<Rightarrow> Inl e
           | Inr subscriptValue \<Rightarrow> Subscript_operate H arrayValue subscriptValue))"
| "Expression_interpret H m (Identifier name) =
     (case Memory_get m name of
        Undefined \<Rightarrow> Inl (Unknown_variable name)
      | Number n \<Rightarrow> Inr (Number n)
      | _ \<Rightarrow> Inl (Variable_is_not_a_number name))"
| "Expression_interpret H m (Numeral n) = Inr (Number n)"
| "Expression_interpret H m (Bool b) = Inr (Boolean b)"
| "interpret_each H m [] = Inr []"
| "interpret_each H m (e # es) =
     (case Expression_interpret H m e of
        Inl x \<Rightarrow> Inl x
      | Inr v \<Rightarrow>
          (case interpret_each H m es of
             Inl x \<Rightarrow> Inl x
           | Inr vs \<Rightarrow> Inr (v # vs)))"

section \<open>Statements and the program of \<open>part_000\<close>\<close>

text \<open>
  The state of a run: the global \<open>memory\<close> and the values \<open>console.log\<close> has written,
  oldest first.
\<close>

record 'n state =
  memory :: "'n Memory"
  console :: "'n Value list"

text \<open>
  A statement ends normally (\<open>None\<close>) or by a thrown error (\<open>Some e\<close>); either way it
  leaves a state. A \<open>while\<close> loop of the source may run forever, so the interpreter of
  statements takes fuel: the number of nested statements and loop iterations it may
  still enter. The result \<open>None\<close> means the fuel ran out.
\<close>

type_synonym 'n outcome = "error option \<times> 'n state"

text \<open>\<open>Block.interpret\<close>: the statements in order; a thrown error ends the loop.\<close>

fun Block_interpret ::
  "('n Statement \<Rightarrow> 'n state \<Rightarrow> 'n outcome option) \<Rightarrow> 'n Statement list \<Rightarrow> 'n state
     \<Rightarrow> 'n outcome option" where
  "Block_interpret run [] s = Some (None, s)"
| "Block_interpret run (statement # rest) s =
     (case run statement s of
        None \<Rightarrow> None
      | Some (Some e, s') \<Rightarrow> Some (Some e, s')
      | Some (None, s') \<Rightarrow> Block_interpret run rest s')"

fun Statement_interpret :: "'n host \<Rightarrow> nat \<Rightarrow> 'n Statement \<Rightarrow> 'n state \<Rightarrow> 'n outcome option" where
  "Statement_interpret H 0 statement s = None"
| "Statement_interpret H (Suc k) (VariableDeclaration name initializer) s =
     (if Memory_has (memory s) name then Some (Some (Variable_already_declared name), s)
      else
        (case Expression_interpret H (memory s) initializer of
           Inl e \<Rightarrow> Some (Some e, s)
         | Inr v \<Rightarrow> Some (None, s\<lparr>memory := (memory s)(name \<mapsto> v)\<rparr>)))"
| "Statement_interpret H (Suc k) (Assignment name source) s =
     (if \<not> Memory_has (memory s) name then Some (Some (Unknown_variable name), s)
      else
        (case Expression_interpret H (memory s) source of
           Inl e \<Rightarrow> Some (Some e, s)
         | Inr v \<Rightarrow> Some (None, s\<lparr>memory := (memory s)(name \<mapsto> v)\<rparr>)))"
| "Statement_interpret H (Suc k) (PrintStatement expression) s =
     (case Expression_interpret H (memory s) expression of
        Inl e \<Rightarrow> Some (Some e, s)
      | Inr v \<Rightarrow> Some (None, s\<lparr>console := console s @ [v]\<rparr>))"
| "Statement_interpret H (Suc k) (While expression block) s =
     (case Expression_interpret H (memory s) expression of
        Inl e \<Rightarrow> Some (Some e, s)
      | Inr v \<Rightarrow>
          if truthy H v then
            (case Block_interpret (Statement_interpret H k) block s of
               None \<Rightarrow> None
             | Some (Some e, s') \<Rightarrow> Some (Some e, s')
             | Some (None, s') \<Rightarrow> Statement_interpret H k (While expression block) s')
          else Some (None, s))"
| "Statement_interpret H (Suc k) (FunctionStatement name args expression) s =
     Some (None, s\<lparr>memory := (memory s)(name \<mapsto> Array [Array (map Object args), Object expression])\<rparr>)"
| "Statement_interpret H (Suc k) (ExpressionStatement expression) s =
     (case Expression_interpret H (memory s) expression of
        Inl e \<Rightarrow> Some (Some e, s)
      | Inr v \<Rightarrow> Some (None, s))"

text \<open>
  The key \<open>"\<pi>"\<close> of the source, as the two bytes of its UTF-8 encoding.
\<close>

definition pi_name :: string where
  "pi_name = [CHR 0xCF, CHR 0x80]"

text \<open>The seven \<open>memory.set\<close> calls of \<open>Program.interpret\<close>, in their order.\<close>

definition set_builtins :: "'n host \<Rightarrow> 'n Memory \<Rightarrow> 'n Memory" where
  "set_builtins H m =
     m(''sin'' \<mapsto> Function Math_sin,
       ''cos'' \<mapsto> Function Math_cos,
       ''hypot'' \<mapsto> Function Math_hypot,
       ''sqrt'' \<mapsto> Function Math_sqrt,
       pi_name \<mapsto> Number (Math_PI H),
       ''exp'' \<mapsto> Function Math_exp,
       ''ln'' \<mapsto> Number (Math_LN10 H))"

fun Program_interpret :: "'n host \<Rightarrow> nat \<Rightarrow> 'n Program \<Rightarrow> 'n state \<Rightarrow> 'n outcome option" where
  "Program_interpret H k (Program body) s =
     Block_interpret (Statement_interpret H k) body (s\<lparr>memory := set_builtins H (memory s)\<rparr>)"

text \<open>
  The function \<open>interpret(program)\<close> at the end of the file, run on the module's
  initial state:
  \<open>memory\<close> is a new, empty map and nothing has been printed.
\<close>

definition initial_state :: "'n state" where
  "initial_state = \<lparr>memory = Map.empty, console = []\<rparr>"

definition interpret_program :: "'n host \<Rightarrow> nat \<Rightarrow> 'n Program \<Rightarrow> 'n outcome option" where
  "interpret_program H k program = Program_interpret H k program initial_state"

section \<open>The second program of \<open>bella.ts\<close>\<close>

text \<open>
  The second program of \<open>src/bella.ts\<close> has the statements \<open>VariableDeclaration\<close>,
  \<open>Assignment\<close> and \<open>PrintStatement\<close> and no arrays; \<open>While\<close> and \<open>Function\<close> are
  commented out. Its \<open>interpret\<close> methods take the memory as an argument.
  \<open>ConditionalExpression\<close> names its fields \<open>exp_true\<close>, \<open>condition\<close>, \<open>exp_false\<close>,
  in this order.
\<close>

datatype 'n B_Expression =
    B_BinaryExp string "'n B_Expression" "'n B_Expression"
  | B_UnaryExp string "'n B_Expression"
  | B_ConditionalExpression "'n B_Expression" "'n B_Expression" "'n B_Expression"
  | B_Call string "'n B_Expression list"
  | B_Identifier string
  | B_Numeral 'n
  | B_Bool bool

datatype 'n B_Statement =
    B_VariableDeclaration string "'n B_Expression"
  | B_Assignment string "'n B_Expression"
  | B_PrintStatement "'n B_Expression"

datatype 'n B_Program = B_Program "'n B_Statement list"

text \<open>
  What \<open>console.log\<close> has written: a value (\<open>PrintStatement\<close>) or a text
  (\<open>Identifier.interpret\<close> logs \<open>typeof value\<close>).
\<close>

datatype 'n B_line = Logged_value "'n Value" | Logged_text string

text \<open>
  The binary operators with no type test in front of them. The values of this program's
  expressions are numbers and booleans (lemma \<open>B_interpret_number_or_boolean\<close>), and on
  those the host's operators first coerce a boolean to a number; \<open>===\<close> compares without
  coercion.
\<close>

fun B_strict_equal :: "'n host \<Rightarrow> 'n Value \<Rightarrow> 'n Value \<Rightarrow> bool" where
  "B_strict_equal H (Number a) (Number b) = relation H StrictEq a b"
| "B_strict_equal H (Boolean a) (Boolean b) = (a = b)"
| "B_strict_equal H left right = False"

definition B_eager_operators :: "string list" where
  "B_eager_operators =
     [''+'', ''-'', ''*'', ''/'', ''%'', ''**'', ''<'', ''<='', ''=='', ''!='', ''>='', ''>'']"

definition B_operate :: "'n host \<Rightarrow> string \<Rightarrow> 'n Value \<Rightarrow> 'n Value \<Rightarrow> 'n Value" where
  "B_operate H op left right =
     (if op = ''+'' then Number (arithmetic H Add (to_number H left) (to_number H right))
      else if op = ''-'' then Number (arithmetic H Sub (to_number H left) (to_number H right))
      else if op = ''*'' then Number (arithmetic H Mul (to_number H left) (to_number H right))
      else if op = ''/'' then Number (arithmetic H Div (to_number H left) (to_number H right))
      else if op = ''%'' then Number (arithmetic H Rem (to_number H left) (to_number H right))
      else if op = ''**'' then Number (arithmetic H Pow (to_number H left) (to_number H right))
      else if op = ''<'' then Boolean (relation H Lt (to_number H left) (to_number H right))
      else if op = ''<='' then Boolean (relation H Le (to_number H left) (to_number H right))
      else if op = ''=='' then Boolean (B_strict_equal H left right)
      else if op = ''!='' then Boolean (\<not> B_strict_equal H left right)
      else if op = ''>='' then Boolean (relation H Ge (to_number H left) (to_number H right))
      else Boolean (relation H Gt (to_number H left) (to_number H right)))"

text \<open>
  An expression returns its result and the lines it wrote to the console while it was
  evaluated, oldest first. An error keeps the lines written before it was thrown.
\<close>

fun B_Expression_interpret ::
    "'n host \<Rightarrow> 'n Memory \<Rightarrow> 'n B_Expression \<Rightarrow> (error + 'n Value) \<times> 'n B_line list"
  and B_interpret_each ::
    "'n host \<Rightarrow> 'n Memory \<Rightarrow> 'n B_Expression list \<Rightarrow> (error + 'n Value list) \<times> 'n B_line list"
where
  "B_Expression_interpret H m (B_BinaryExp op l r) =
     (if op \<in> set B_eager_operators then
        (case B_Expression_interpret H m l of
           (Inl e, out1) \<Rightarrow> (Inl e, out1)
         | (Inr left, out1) \<Rightarrow>
             (case B_Expression_interpret H m r of
                (Inl e, out2) \<Rightarrow> (Inl e, out1 @ out2)
              | (Inr right, out2) \<Rightarrow> (Inr (B_operate H op left right), out1 @ out2)))
      else if op = ''&&'' then
        (case B_Expression_interpret H m l of
           (Inl e, out1) \<Rightarrow> (Inl e, out1)
         | (Inr left, out1) \<Rightarrow>
             if truthy H left then
               (case B_Expression_interpret H m r of (res, out2) \<Rightarrow> (res, out1 @ out2))
             else (Inr left, out1))
      else if op = ''||'' then
        (case B_Expression_interpret H m l of
           (Inl e, out1) \<Rightarrow> (Inl e, out1)
         | (Inr left, out1) \<Rightarrow>
             if truthy H left then (Inr left, out1)
             else
               (case B_Expression_interpret H m r of (res, out2) \<Rightarrow> (res, out1 @ out2)))
      else (Inl (Unknown_operator op), []))"
| "B_Expression_interpret H m (B_UnaryExp op operand) =
     (if op = ''-'' then
        (case B_Expression_interpret H m operand of
           (Inl e, out) \<Rightarrow> (Inl e, out)
         | (Inr v, out) \<Rightarrow> (Inr (Number (negate H (to_number H v))), out))
      else if op = ''!'' then
        (case B_Expression_interpret H m operand of
           (Inl e, out) \<Rightarrow> (Inl e, out)
         | (Inr v, out) \<Rightarrow> (Inr (Boolean (\<not> truthy H v)), out))
      else (Inl (Unknown_operator op), []))"
| "B_Expression_interpret H m (B_ConditionalExpression exp_true condition exp_false) =
     (case B_Expression_interpret H m exp_true of
        (Inl e, out1) \<Rightarrow> (Inl e, out1)
      | (Inr v, out1) \<Rightarrow>
          if truthy H v then
            (case B_Expression_interpret H m condition of (res, out2) \<Rightarrow> (res, out1 @ out2))
          else
            (case B_Expression_interpret H m exp_false of (res, out2) \<Rightarrow> (res, out1 @ out2)))"
| "B_Expression_interpret H m (B_Call callee args) =
     (case Memory_get m callee of
        Function f \<Rightarrow>
          (case B_interpret_each H m args of
             (Inl e, out) \<Rightarrow> (Inl e, out)
           | (Inr vs, out) \<Rightarrow> (Inr (Number (Math_call H f vs)), out))
      | _ \<Rightarrow> (Inl (Unknown_function callee), []))"
| "B_Expression_interpret H m (B_Identifier name) =
     (case Memory_get m name of
        Undefined \<Rightarrow> (Inl (Unknown_variable name), [Logged_text (typeof (Memory_get m name))])
      | Number n \<Rightarrow> (Inr (Number n), [Logged_text (typeof (Memory_get m name))])
      | _ \<Rightarrow> (Inl (Variable_is_not_a_number name), [Logged_text (typeof (Memory_get m name))]))"
| "B_Expression_interpret H m (B_Numeral n) = (Inr (Number n), [])"
| "B_Expression_interpret H m (B_Bool b) = (Inr (Boolean b), [])"
| "B_interpret_each H m [] = (Inr [], [])"
| "B_interpret_each H m (e # es) =
     (case B_Expression_interpret H m e of
        (Inl x, out1) \<Rightarrow> (Inl x, out1)
      | (Inr v, out1) \<Rightarrow>
          (case B_interpret_each H m es of
             (Inl x, out2) \<Rightarrow> (Inl x, out1 @ out2)
           | (Inr vs, out2) \<Rightarrow> (Inr (v # vs), out1 @ out2)))"

record 'n B_state =
  B_memory :: "'n Memory"
  B_console :: "'n B_line list"

fun B_Statement_interpret :: "'n host \<Rightarrow> 'n B_Statement \<Rightarrow> 'n B_state \<Rightarrow> error option \<times> 'n B_state" where
  "B_Statement_interpret H (B_VariableDeclaration name initializer) s =
     (if Memory_has (B_memory s) name then (Some (Variable_already_declared name), s)
      else
        (case B_Expression_interpret H (B_memory s) initializer of
           (Inl e, out) \<Rightarrow> (Some e, s\<lparr>B_console := B_console s @ out\<rparr>)
         | (Inr v, out) \<Rightarrow>
             (None, s\<lparr>B_memory := (B_memory s)(name \<mapsto> v), B_console := B_console s @ out\<rparr>)))"
| "B_Statement_interpret H (B_Assignment name source) s =
     (if \<not> Memory_has (B_memory s) name then (Some (Unknown_variable name), s)
      else
        (case B_Expression_interpret H (B_memory s) source of
           (Inl e, out) \<Rightarrow> (Some e, s\<lparr>B_console := B_console s @ out\<rparr>)
         | (Inr v, out) \<Rightarrow>
             (None, s\<lparr>B_memory := (B_memory s)(name \<mapsto> v), B_console := B_console s @ out\<rparr>)))"
| "B_Statement_interpret H (B_PrintStatement expression) s =
     (case B_Expression_interpret H (B_memory s) expression of
        (Inl e, out) \<Rightarrow> (Some e, s\<lparr>B_console := B_console s @ out\<rparr>)
      | (Inr v, out) \<Rightarrow> (None, s\<lparr>B_console := B_console s @ out @ [Logged_value v]\<rparr>))"

text \<open>
  \<open>Block.interpret\<close> of this program returns from inside its loop: it runs the first
  statement only.
\<close>

fun B_Block_interpret :: "'n host \<Rightarrow> 'n B_Statement list \<Rightarrow> 'n B_state \<Rightarrow> error option \<times> 'n B_state" where
  "B_Block_interpret H [] s = (None, s)"
| "B_Block_interpret H (statement # rest) s = B_Statement_interpret H statement s"

text \<open>\<open>Program.interpret\<close> makes a new map, binds the names of the host and runs the body.\<close>

fun B_Program_interpret :: "'n host \<Rightarrow> 'n B_Program \<Rightarrow> error option \<times> 'n B_state" where
  "B_Program_interpret H (B_Program body) =
     B_Block_interpret H body \<lparr>B_memory = set_builtins H Map.empty, B_console = []\<rparr>"

section \<open>A host for concrete runs\<close>

text \<open>
  Closed instances of the theorems need one host. \<open>exact_host\<close> computes with the
  rationals, extended by the two infinities and NaN, without rounding and without a
  negative zero. It agrees with the doubles of JavaScript wherever the operands and the
  exact result are integers below \<open>2 ^ 53\<close> in magnitude, or halves of such, which is
  all that the closed theorems below compute. Powers with a fractional exponent and the
  \<open>Math\<close> functions are not computed (they yield \<open>NaN\<close>); no theorem below rests
  on them.
\<close>

datatype number = Finite rat | PosInfinity | NegInfinity | NaN

fun number_neg :: "number \<Rightarrow> number" where
  "number_neg (Finite q) = Finite (- q)"
| "number_neg PosInfinity = NegInfinity"
| "number_neg NegInfinity = PosInfinity"
| "number_neg NaN = NaN"

fun number_negative :: "number \<Rightarrow> bool" where
  "number_negative (Finite q) = (q < 0)"
| "number_negative NegInfinity = True"
| "number_negative x = False"

fun number_add :: "number \<Rightarrow> number \<Rightarrow> number" where
  "number_add NaN y = NaN"
| "number_add x NaN = NaN"
| "number_add (Finite a) (Finite b) = Finite (a + b)"
| "number_add PosInfinity NegInfinity = NaN"
| "number_add NegInfinity PosInfinity = NaN"
| "number_add (Finite a) y = y"
| "number_add x y = x"

fun number_mul :: "number \<Rightarrow> number \<Rightarrow> number" where
  "number_mul NaN y = NaN"
| "number_mul x NaN = NaN"
| "number_mul (Finite a) (Finite b) = Finite (a * b)"
| "number_mul x y =
     (if x = Finite 0 \<or> y = Finite 0 then NaN
      else if number_negative x = number_negative y then PosInfinity
      else NegInfinity)"

fun number_div :: "number \<Rightarrow> number \<Rightarrow> number" where
  "number_div NaN y = NaN"
| "number_div x NaN = NaN"
| "number_div (Finite a) (Finite b) =
     (if b \<noteq> 0 then Finite (a / b)
      else if a = 0 then NaN
      else if a < 0 then NegInfinity
      else PosInfinity)"
| "number_div (Finite a) y = Finite 0"
| "number_div x (Finite b) =
     (if number_negative x = (b < 0) then PosInfinity else NegInfinity)"
| "number_div x y = NaN"

fun number_rem :: "number \<Rightarrow> number \<Rightarrow> number" where
  "number_rem (Finite a) (Finite b) =
     (if b = 0 then NaN
      else Finite (a - b * of_int (if 0 \<le> a / b then \<lfloor>a / b\<rfloor> else \<lceil>a / b\<rceil>)))"
| "number_rem (Finite a) PosInfinity = Finite a"
| "number_rem (Finite a) NegInfinity = Finite a"
| "number_rem x y = NaN"

fun number_pow :: "number \<Rightarrow> number \<Rightarrow> number" where
  "number_pow (Finite a) (Finite b) =
     (if b \<noteq> of_int \<lfloor>b\<rfloor> then NaN
      else if 0 \<le> b then Finite (a ^ nat \<lfloor>b\<rfloor>)
      else if a = 0 then PosInfinity
      else Finite (1 / a ^ nat (- \<lfloor>b\<rfloor>)))"
| "number_pow x y = NaN"

fun number_arith :: "arith \<Rightarrow> number \<Rightarrow> number \<Rightarrow> number" where
  "number_arith Add x y = number_add x y"
| "number_arith Sub x y = number_add x (number_neg y)"
| "number_arith Mul x y = number_mul x y"
| "number_arith Div x y = number_div x y"
| "number_arith Rem x y = number_rem x y"
| "number_arith Pow x y = number_pow x y"

fun number_less :: "number \<Rightarrow> number \<Rightarrow> bool" where
  "number_less NaN y = False"
| "number_less x NaN = False"
| "number_less (Finite a) (Finite b) = (a < b)"
| "number_less x NegInfinity = False"
| "number_less PosInfinity y = False"
| "number_less x y = True"

fun number_eq :: "number \<Rightarrow> number \<Rightarrow> bool" where
  "number_eq NaN y = False"
| "number_eq x NaN = False"
| "number_eq x y = (x = y)"

fun number_rel :: "rel \<Rightarrow> number \<Rightarrow> number \<Rightarrow> bool" where
  "number_rel Lt x y = number_less x y"
| "number_rel Le x y = (number_less x y \<or> number_eq x y)"
| "number_rel StrictEq x y = number_eq x y"
| "number_rel Ge x y = (number_less y x \<or> number_eq x y)"
| "number_rel Gt x y = number_less y x"

fun number_truthy :: "number \<Rightarrow> bool" where
  "number_truthy (Finite q) = (q \<noteq> 0)"
| "number_truthy NaN = False"
| "number_truthy x = True"

text \<open>
  The host's coercion of a value that is not a number: \<open>true\<close> is 1 and \<open>false\<close> is 0;
  an array goes through its text, which is empty for \<open>[]\<close> and \<open>[undefined]\<close> and the
  element's text for a one-element array; all else is NaN.
\<close>

fun number_of_value :: "number Value \<Rightarrow> number" where
  "number_of_value (Number n) = n"
| "number_of_value (Boolean b) = Finite (if b then 1 else 0)"
| "number_of_value (Array []) = Finite 0"
| "number_of_value (Array [Number n]) = n"
| "number_of_value (Array [Undefined]) = Finite 0"
| "number_of_value (Array [Array vs]) = number_of_value (Array vs)"
| "number_of_value v = NaN"

fun number_index :: "number \<Rightarrow> nat option" where
  "number_index (Finite q) = (if 0 \<le> q \<and> q = of_int \<lfloor>q\<rfloor> then Some (nat \<lfloor>q\<rfloor>) else None)"
| "number_index x = None"

definition exact_host :: "number host" where
  "exact_host =
     \<lparr>arithmetic = number_arith,
      relation = number_rel,
      negate = number_neg,
      ToBoolean_number = number_truthy,
      ToNumber = number_of_value,
      array_index = number_index,
      Math_call = (\<lambda>f args. NaN),
      Math_PI = Finite (884279719003555 / 281474976710656),
      Math_LN10 = Finite (2592480341699211 / 1125899906842624)\<rparr>"

section \<open>Sample programs\<close>

text \<open>
  Scenario 5 of the specification, \<open>function square(n) = n * n\<close>, and the
  \<open>FunctionStatement test\<close> at the end of the source's own sample program.
\<close>

definition square_declaration :: "'n Statement" where
  "square_declaration =
     FunctionStatement ''square'' [Identifier ''n'']
       (BinaryExp ''*'' (Identifier ''n'') (Identifier ''n''))"

definition function_statement_test :: "'n \<Rightarrow> 'n \<Rightarrow> 'n Program" where
  "function_statement_test zero four =
     Program [VariableDeclaration ''i'' (Numeral zero),
              FunctionStatement ''plusFour'' [Identifier ''i'']
                (BinaryExp ''+'' (Identifier ''z'') (Numeral four)),
              ExpressionStatement (Call ''plusFour'' [Identifier ''i'']),
              PrintStatement (Identifier ''i'')]"

text \<open>Scenario 4: \<open>y := 0; while (y < 10) { y = y + 1 }; print(y)\<close>.\<close>

definition counting_guard :: "'n \<Rightarrow> 'n Expression" where
  "counting_guard ten = BinaryExp ''<'' (Identifier ''y'') (Numeral ten)"

definition counting_body :: "'n \<Rightarrow> 'n Statement list" where
  "counting_body one = [Assignment ''y'' (BinaryExp ''+'' (Identifier ''y'') (Numeral one))]"

definition counting_program :: "'n \<Rightarrow> 'n \<Rightarrow> 'n \<Rightarrow> 'n Program" where
  "counting_program zero ten one =
     Program [VariableDeclaration ''y'' (Numeral zero),
              While (counting_guard ten) (counting_body one),
              PrintStatement (Identifier ''y'')]"

text \<open>Scenario 6: the array \<open>[1, 2, 3]\<close>.\<close>

definition one_two_three :: "number Expression" where
  "one_two_three = ArrayLiteral [Numeral (Finite 1), Numeral (Finite 2), Numeral (Finite 3)]"

text \<open>Two states in which \<open>x\<close> is bound to 1 and no other name is bound.\<close>

definition x_is_one :: "number state" where
  "x_is_one = \<lparr>memory = [''x'' \<mapsto> Number (Finite 1)], console = []\<rparr>"

definition B_x_is_one :: "number B_state" where
  "B_x_is_one = \<lparr>B_memory = [''x'' \<mapsto> Number (Finite 1)], B_console = []\<rparr>"

fun number_or_boolean :: "'n Value \<Rightarrow> bool" where
  "number_or_boolean (Number n) = True"
| "number_or_boolean (Boolean b) = True"
| "number_or_boolean v = False"

section \<open>Basic facts\<close>

lemma Memory_has_upd [simp]: "Memory_has (m(k \<mapsto> v)) k' = (k' = k \<or> Memory_has m k')"
  by (simp add: Memory_has_def)

lemma Memory_get_upd [simp]: "Memory_get (m(k \<mapsto> v)) k' = (if k' = k then v else Memory_get m k')"
  by (simp add: Memory_get_def)

lemma Memory_get_empty [simp]: "Memory_get Map.empty k = Undefined"
  by (simp add: Memory_get_def)

lemma Memory_has_empty [simp]: "\<not> Memory_has Map.empty k"
  by (simp add: Memory_has_def)

text \<open>No error of the source is an arity or an index error.\<close>

lemma kind_never_arity_or_range:
  "kind e \<noteq> ArityMismatchError \<and> kind e \<noteq> IndexOutOfRangeError"
  by (cases e) simp_all

lemma BinaryExp_operate_not_number:
  "typeof u \<noteq> ''number'' \<or> typeof v \<noteq> ''number'' \<Longrightarrow> BinaryExp_operate H op u v = Inl Must_be_a_number"
  by (cases u; cases v) simp_all

text \<open>
  In the second program of \<open>bella.ts\<close> an expression yields a number or a boolean, so
  \<open>B_operate\<close> only ever coerces booleans.
\<close>

lemma B_operate_number_or_boolean: "number_or_boolean (B_operate H op l r)"
  by (simp add: B_operate_def)

lemma B_interpret_number_or_boolean:
  "B_Expression_interpret H m e = (Inr v, out) \<Longrightarrow> number_or_boolean v"
proof (induction e arbitrary: v out)
  case (B_BinaryExp op l r)
  then show ?case
    by (auto simp add: B_operate_number_or_boolean split: if_splits prod.splits sum.splits)
next
  case (B_UnaryExp op e)
  then show ?case by (auto split: if_splits prod.splits sum.splits)
next
  case (B_ConditionalExpression t c a)
  then show ?case by (auto split: if_splits prod.splits sum.splits)
next
  case (B_Call f args)
  then show ?case by (auto split: if_splits prod.splits sum.splits Value.splits)
next
  case (B_Identifier x)
  then have "\<exists>n. v = Number n" by (auto split: Value.splits intro: sym)
  then show ?case by auto
qed auto

section \<open>Fuel\<close>

text \<open>
  Fuel only bounds the run: a result reached with some fuel is the result with any
  larger fuel.
\<close>

lemma Block_interpret_mono:
  assumes "\<And>st s r. run st s = Some r \<Longrightarrow> run' st s = Some r"
  shows "Block_interpret run b s = Some r \<Longrightarrow> Block_interpret run' b s = Some r"
proof (induction b arbitrary: s)
  case Nil
  then show ?case by simp
next
  case (Cons st b)
  from Cons.prems obtain e s1 where r1: "run st s = Some (e, s1)"
    by (cases "run st s") auto
  then have r1': "run' st s = Some (e, s1)" by (rule assms)
  show ?case
  proof (cases e)
    case None
    with Cons.prems r1 have "Block_interpret run b s1 = Some r" by simp
    then have "Block_interpret run' b s1 = Some r" by (rule Cons.IH)
    with r1' None show ?thesis by simp
  next
    case (Some x)
    with Cons.prems r1 have "r = (Some x, s1)" by simp
    with r1' Some show ?thesis by simp
  qed
qed

lemma Statement_interpret_Suc:
  "Statement_interpret H k st s = Some r \<Longrightarrow> Statement_interpret H (Suc k) st s = Some r"
proof (induction k arbitrary: st s r)
  case 0
  then show ?case by simp
next
  case (Suc k)
  show ?case
  proof (cases st)
    case (While c b)
    have mono: "Block_interpret (Statement_interpret H (Suc k)) b' s' = Some r'"
      if "Block_interpret (Statement_interpret H k) b' s' = Some r'" for b' s' r'
      using Suc.IH that by (rule Block_interpret_mono)
    show ?thesis
    proof (cases "Expression_interpret H (memory s) c")
      case (Inl e)
      with Suc.prems While show ?thesis by simp
    next
      case (Inr v)
      show ?thesis
      proof (cases "truthy H v")
        case False
        with Suc.prems While Inr show ?thesis by simp
      next
        case True
        from Suc.prems While Inr True obtain e s1 where
          r1: "Block_interpret (Statement_interpret H k) b s = Some (e, s1)"
          by (cases "Block_interpret (Statement_interpret H k) b s") auto
        then have r1': "Block_interpret (Statement_interpret H (Suc k)) b s = Some (e, s1)"
          by (rule mono)
        show ?thesis
        proof (cases e)
          case None
          with Suc.prems While Inr True r1
          have "Statement_interpret H k (While c b) s1 = Some r" by simp
          then have "Statement_interpret H (Suc k) (While c b) s1 = Some r" by (rule Suc.IH)
          with While Inr True r1' None show ?thesis by simp
        next
          case (Some x)
          with Suc.prems While Inr True r1 have "r = (Some x, s1)" by simp
          with While Inr True r1' Some show ?thesis by simp
        qed
      qed
    qed
  qed (use Suc.prems in simp_all)
qed

lemma Statement_interpret_fuel:
  "Statement_interpret H k st s = Some r \<Longrightarrow> Statement_interpret H (k + j) st s = Some r"
  by (induction j) (simp_all add: Statement_interpret_Suc)

section \<open>Logical operators\<close>

text \<open>
  \<open>BinaryExp.interpret\<close> of \<open>part_000\<close> evaluates both operands before it looks at
  the operator: an error of the right operand is raised whatever the operator and the
  left value are.
\<close>

lemma BinaryExp_right_operand_always_evaluated:
  "Expression_interpret H m l = Inr v \<Longrightarrow> Expression_interpret H m r = Inl e
   \<Longrightarrow> Expression_interpret H m (BinaryExp op l r) = Inl e"
  by simp

text \<open>
  The second program of \<open>bella.ts\<close> applies the host's \<open>&&\<close> and \<open>||\<close> to the two
  calls of \<open>interpret\<close>, so the right one is skipped when the left value decides.
\<close>

lemma B_and_short_circuit:
  "B_Expression_interpret H m l = (Inr v, out) \<Longrightarrow> \<not> truthy H v
   \<Longrightarrow> B_Expression_interpret H m (B_BinaryExp ''&&'' l r) = (Inr v, out)"
  by (simp add: B_eager_operators_def)

lemma B_or_short_circuit:
  "B_Expression_interpret H m l = (Inr v, out) \<Longrightarrow> truthy H v
   \<Longrightarrow> B_Expression_interpret H m (B_BinaryExp ''||'' l r) = (Inr v, out)"
  by (simp add: B_eager_operators_def)

text \<open>
  Claim C1 (short-circuit evaluation of \<open>&&\<close> and \<open>||\<close>) fails in \<open>part_000\<close>.
  With no variable bound, \<open>false && x\<close> and \<open>true || x\<close> raise \<open>Unknown variable: x\<close>:
  the right operand is evaluated although the left one decides. Even \<open>false && true\<close>
  raises, since both operands must be numbers. The second program of \<open>bella.ts\<close>
  returns the left value for the same two expressions and never looks \<open>x\<close> up (it
  writes no \<open>typeof\<close> line).
\<close>

theorem part_000_logical_operators_evaluate_right_operand:
  "Expression_interpret H Map.empty (BinaryExp ''&&'' (Bool False) (Identifier ''x''))
     = Inl (Unknown_variable ''x'')
   \<and> Expression_interpret H Map.empty (BinaryExp ''||'' (Bool True) (Identifier ''x''))
     = Inl (Unknown_variable ''x'')
   \<and> Expression_interpret H Map.empty (BinaryExp ''&&'' (Bool False) (Bool True))
     = Inl Must_be_a_number
   \<and> B_Expression_interpret H Map.empty (B_BinaryExp ''&&'' (B_Bool False) (B_Identifier ''x''))
     = (Inr (Boolean False), [])
   \<and> B_Expression_interpret H Map.empty (B_BinaryExp ''||'' (B_Bool True) (B_Identifier ''x''))
     = (Inr (Boolean True), [])"
  by (simp add: B_eager_operators_def)

section \<open>Conditional expressions\<close>

text \<open>
  Claim C2. \<open>ConditionalExpression(test, consequent, alternate)\<close> evaluates \<open>test\<close>
  first. An error of \<open>test\<close> is the result. Otherwise the result is the result of
  \<open>consequent\<close> when the test value is truthy and the result of \<open>alternate\<close> when
  it is not, whatever the other branch is: the other branch is not evaluated, so an
  error it would raise does not occur. In the second program of \<open>bella.ts\<close>, where
  evaluation writes to the console, the lines written are those of the test followed by
  those of the selected branch only.
\<close>

theorem ConditionalExpression_evaluates_one_branch:
  "(Expression_interpret H m test = Inl e \<longrightarrow>
      Expression_interpret H m (ConditionalExpression test consequent alternate) = Inl e)
   \<and> (Expression_interpret H m test = Inr v \<and> truthy H v \<longrightarrow>
      Expression_interpret H m (ConditionalExpression test consequent alternate)
        = Expression_interpret H m consequent)
   \<and> (Expression_interpret H m test = Inr v \<and> \<not> truthy H v \<longrightarrow>
      Expression_interpret H m (ConditionalExpression test consequent alternate)
        = Expression_interpret H m alternate)
   \<and> (B_Expression_interpret H m test' = (Inl e, out) \<longrightarrow>
      B_Expression_interpret H m (B_ConditionalExpression test' consequent' alternate')
        = (Inl e, out))
   \<and> (B_Expression_interpret H m test' = (Inr v, out) \<and> truthy H v \<longrightarrow>
      B_Expression_interpret H m (B_ConditionalExpression test' consequent' alternate')
        = (fst (B_Expression_interpret H m consequent'),
           out @ snd (B_Expression_interpret H m consequent')))
   \<and> (B_Expression_interpret H m test' = (Inr v, out) \<and> \<not> truthy H v \<longrightarrow>
      B_Expression_interpret H m (B_ConditionalExpression test' consequent' alternate')
        = (fst (B_Expression_interpret H m alternate'),
           out @ snd (B_Expression_interpret H m alternate')))"
  by (simp add: case_prod_unfold)

text \<open>
  Witness for C2: \<open>true ? 1 : x\<close> is 1 and \<open>0 ? x : 2\<close> is 2 although \<open>x\<close> is
  unbound; \<open>t ? 1 : 2\<close> raises the error of the unbound \<open>t\<close>; and in \<open>bella.ts\<close>
  \<open>false ? x : y\<close> writes the one line of \<open>y\<close>.
\<close>

theorem ConditionalExpression_evaluates_one_branch_witness:
  "Expression_interpret exact_host Map.empty (Bool True) = Inr (Boolean True)
   \<and> truthy exact_host (Boolean True)
   \<and> Expression_interpret exact_host Map.empty
        (ConditionalExpression (Bool True) (Numeral (Finite 1)) (Identifier ''x''))
      = Inr (Number (Finite 1))
   \<and> Expression_interpret exact_host Map.empty (Numeral (Finite 0)) = Inr (Number (Finite 0))
   \<and> \<not> truthy exact_host (Number (Finite 0))
   \<and> Expression_interpret exact_host Map.empty
        (ConditionalExpression (Numeral (Finite 0)) (Identifier ''x'') (Numeral (Finite 2)))
      = Inr (Number (Finite 2))
   \<and> Expression_interpret exact_host Map.empty
        (ConditionalExpression (Identifier ''t'') (Numeral (Finite 1)) (Numeral (Finite 2)))
      = Inl (Unknown_variable ''t'')
   \<and> B_Expression_interpret exact_host [''y'' \<mapsto> Number (Finite 3)]
        (B_ConditionalExpression (B_Bool False) (B_Identifier ''x'') (B_Identifier ''y''))
      = (Inr (Number (Finite 3)), [Logged_text ''number''])"
  using ConditionalExpression_evaluates_one_branch
          [where H = exact_host and m = Map.empty and test = "Bool True"
             and consequent = "Numeral (Finite 1)" and alternate = "Identifier ''x''"
             and v = "Boolean True"]
        ConditionalExpression_evaluates_one_branch
          [where H = exact_host and m = Map.empty and test = "Numeral (Finite 0)"
             and consequent = "Identifier ''x''" and alternate = "Numeral (Finite 2)"
             and v = "Number (Finite 0)"]
        ConditionalExpression_evaluates_one_branch
          [where H = exact_host and m = Map.empty and test = "Identifier ''t''"
             and consequent = "Numeral (Finite 1)" and alternate = "Numeral (Finite 2)"
             and e = "Unknown_variable ''t''"]
        ConditionalExpression_evaluates_one_branch
          [where H = exact_host and m = "[''y'' \<mapsto> Number (Finite 3)]" and test' = "B_Bool False"
             and consequent' = "B_Identifier ''x''" and alternate' = "B_Identifier ''y''"
             and v = "Boolean False" and out = "[]"]
  by (simp add: exact_host_def)

section \<open>Calls\<close>

text \<open>
  Claim C3 (a declared function can be called) fails in the code. \<open>FunctionStatement\<close>
  stores an array of the parameters and the body, and \<open>Call.interpret\<close> rejects every
  value whose \<open>typeof\<close> is not \<open>function\<close>: a call of any declared function raises
  \<open>Value is not a function\<close>, whatever the arguments. After the declaration of
  \<open>square\<close>, \<open>print(square(5))\<close> raises that error and prints nothing, and
  \<open>square(1, 2)\<close> raises the same error, which is no arity error. The source's own
  \<open>FunctionStatement test\<close> raises it too, at its call of \<open>plusFour\<close>.
\<close>

theorem Call_of_declared_function_is_not_a_function:
  "Expression_interpret H (m(f \<mapsto> Array [Array (map Object params), Object body])) (Call f args)
     = Inl (Value_is_not_a_function f)
   \<and> map_option (\<lambda>(e, s). (e, console s))
       (interpret_program H (Suc k)
          (Program [square_declaration, PrintStatement (Call ''square'' [Numeral five])]))
     = Some (Some (Value_is_not_a_function ''square''), [])
   \<and> map_option (\<lambda>(e, s). (map_option kind e, console s))
       (interpret_program H (Suc k)
          (Program [square_declaration,
                    PrintStatement (Call ''square'' [Numeral one, Numeral two])]))
     = Some (Some NotCallableError, [])
   \<and> map_option (\<lambda>(e, s). (e, console s))
       (interpret_program H (Suc k) (function_statement_test zero four))
     = Some (Some (Value_is_not_a_function ''plusFour''), [])"
  by (simp add: interpret_program_def initial_state_def square_declaration_def
      function_statement_test_def set_builtins_def pi_name_def)

section \<open>Subscripts\<close>

text \<open>
  Claim C4 as stated fails in three places. After \<open>a := [1, 2, 3]\<close>, \<open>print(a[1])\<close>
  raises \<open>Variable is not a number: a\<close> and prints nothing, since \<open>Identifier.interpret\<close>
  only returns numbers. With the array literal in place of \<open>a\<close>, the index 5 and the
  index 1.5 both yield \<open>undefined\<close> and raise nothing.
\<close>

theorem Subscript_counterexample:
  "map_option (\<lambda>(e, s). (e, console s))
     (interpret_program exact_host 1
        (Program [VariableDeclaration ''a'' one_two_three,
                  PrintStatement (Subscript (Identifier ''a'') (Numeral (Finite 1)))]))
     = Some (Some (Variable_is_not_a_number ''a''), [])
   \<and> Expression_interpret exact_host Map.empty (Subscript one_two_three (Numeral (Finite 5)))
     = Inr Undefined
   \<and> Expression_interpret exact_host Map.empty (Subscript one_two_three (Numeral (Finite (3 / 2))))
     = Inr Undefined"
  by code_simp

text \<open>
  Claim C4 as amended. Let both operands of \<open>Subscript(arrayExpr, indexExpr)\<close>
  evaluate to a value, \<open>arrayExpr\<close> first. A value of \<open>arrayExpr\<close> that is no array
  raises \<open>Subscripted item must be an array\<close>; an array with an index value that is
  no number raises \<open>Subscript value must be a number\<close>; both are type errors. An array
  with a number \<open>n\<close> yields the element at \<open>n\<close> when \<open>n\<close> is an index below the
  length, and \<open>undefined\<close> without any error for every other number, be it out of
  range or not integral. An identifier bound to an array cannot be read: it raises
  \<open>Variable is not a number\<close>.
\<close>

theorem Subscript_checks:
  "(Expression_interpret H m array = Inr arrayValue
      \<and> Expression_interpret H m subscript = Inr subscriptValue \<and> \<not> isArray arrayValue \<longrightarrow>
      Expression_interpret H m (Subscript array subscript) = Inl Subscripted_item_must_be_an_array
    \<and> kind Subscripted_item_must_be_an_array = TypeError)
   \<and> (Expression_interpret H m array = Inr (Array vs)
      \<and> Expression_interpret H m subscript = Inr subscriptValue
      \<and> typeof subscriptValue \<noteq> ''number'' \<longrightarrow>
      Expression_interpret H m (Subscript array subscript) = Inl Subscript_value_must_be_a_number
    \<and> kind Subscript_value_must_be_a_number = TypeError)
   \<and> (Expression_interpret H m array = Inr (Array vs)
      \<and> Expression_interpret H m subscript = Inr (Number n)
      \<and> array_index H n = Some i \<and> i < length vs \<longrightarrow>
      Expression_interpret H m (Subscript array subscript) = Inr (vs ! i))
   \<and> (Expression_interpret H m array = Inr (Array vs)
      \<and> Expression_interpret H m subscript = Inr (Number n)
      \<and> (array_index H n = None \<or> (\<exists>i. array_index H n = Some i \<and> length vs \<le> i)) \<longrightarrow>
      Expression_interpret H m (Subscript array subscript) = Inr Undefined)
   \<and> (m name = Some (Array vs) \<longrightarrow>
      Expression_interpret H m (Identifier name) = Inl (Variable_is_not_a_number name)
    \<and> kind (Variable_is_not_a_number name) = TypeError)"
  by (auto simp add: Subscript_operate_def Memory_get_def)

text \<open>
  Witness for C4: \<open>[1, 2, 3][1]\<close> is 2; \<open>1[0]\<close> and \<open>[1, 2, 3][true]\<close> raise the two
  type errors; \<open>[1, 2, 3][5]\<close> is \<open>undefined\<close>; \<open>a\<close> bound to an array cannot be read.
\<close>

theorem Subscript_checks_witness:
  "Expression_interpret exact_host Map.empty one_two_three
     = Inr (Array [Number (Finite 1), Number (Finite 2), Number (Finite 3)])
   \<and> array_index exact_host (Finite 1) = Some 1
   \<and> Expression_interpret exact_host Map.empty (Subscript one_two_three (Numeral (Finite 1)))
     = Inr (Number (Finite 2))
   \<and> \<not> isArray (Number (Finite 1))
   \<and> Expression_interpret exact_host Map.empty (Subscript (Numeral (Finite 1)) (Numeral (Finite 0)))
     = Inl Subscripted_item_must_be_an_array
   \<and> typeof (Boolean True :: number Value) \<noteq> ''number''
   \<and> Expression_interpret exact_host Map.empty (Subscript one_two_three (Bool True))
     = Inl Subscript_value_must_be_a_number
   \<and> array_index exact_host (Finite 5) = Some 5
   \<and> Expression_interpret exact_host Map.empty (Subscript one_two_three (Numeral (Finite 5)))
     = Inr Undefined
   \<and> Expression_interpret exact_host [''a'' \<mapsto> Array [Number (Finite 1)]] (Identifier ''a'')
     = Inl (Variable_is_not_a_number ''a'')"
  using Subscript_checks
          [where H = exact_host and m = Map.empty and array = one_two_three
             and vs = "[Number (Finite 1), Number (Finite 2), Number (Finite 3)]"
             and subscript = "Numeral (Finite 1)" and n = "Finite 1" and i = 1]
        Subscript_checks
          [where H = exact_host and m = Map.empty and array = "Numeral (Finite 1)"
             and arrayValue = "Number (Finite 1)" and subscript = "Numeral (Finite 0)"
             and subscriptValue = "Number (Finite 0)"]
        Subscript_checks
          [where H = exact_host and m = Map.empty and array = one_two_three
             and vs = "[Number (Finite 1), Number (Finite 2), Number (Finite 3)]"
             and subscript = "Bool True" and subscriptValue = "Boolean True"]
        Subscript_checks
          [where H = exact_host and m = Map.empty and array = one_two_three
             and vs = "[Number (Finite 1), Number (Finite 2), Number (Finite 3)]"
             and subscript = "Numeral (Finite 5)" and n = "Finite 5"]
        Subscript_checks
          [where H = exact_host and m = "[''a'' \<mapsto> Array [Number (Finite 1)]]"
             and name = "''a''" and vs = "[Number (Finite 1)]"]
  by (simp add: exact_host_def one_two_three_def)

section \<open>Loops\<close>

lemma While_truthy:
  "Expression_interpret H (memory s) c = Inr v \<Longrightarrow> truthy H v
   \<Longrightarrow> Block_interpret (Statement_interpret H k) b s = Some (None, s1)
   \<Longrightarrow> Statement_interpret H (Suc k) (While c b) s = Statement_interpret H k (While c b) s1"
  by simp

lemma While_falsy:
  "Expression_interpret H (memory s) c = Inr v \<Longrightarrow> \<not> truthy H v
   \<Longrightarrow> Statement_interpret H (Suc k) (While c b) s = Some (None, s)"
  by simp

text \<open>A loop that ends normally leaves a state in which its guard is falsy.\<close>

lemma While_normal_end:
  "Statement_interpret H k (While c b) s = Some (None, s')
   \<Longrightarrow> \<exists>v. Expression_interpret H (memory s') c = Inr v \<and> \<not> truthy H v"
proof (induction k arbitrary: s)
  case 0
  then show ?case by simp
next
  case (Suc k)
  then show ?case
    by (auto split: sum.splits if_splits option.splits prod.splits)
qed

text \<open>
  The loop of scenario 4, started with \<open>y\<close> at \<open>i\<close>, ends with \<open>y\<close> at 10. The numbers
  \<open>num 0\<close>, ..., \<open>num 10\<close> are any numbers of the host on which \<open>+ 1\<close> steps to the
  next one and \<open>< 10\<close> holds of all but the last, as it is with the doubles 0 to 10.
\<close>

lemma counting_loop_from:
  assumes add: "\<And>i. i < 10 \<Longrightarrow> arithmetic H Add (num i) (num 1) = num (Suc i)"
    and lt: "\<And>i. i \<le> 10 \<Longrightarrow> relation H Lt (num i) (num 10) = (i < 10)"
  shows "i \<le> 10 \<Longrightarrow> 10 - i \<le> k \<Longrightarrow>
    Statement_interpret H (Suc k) (While (counting_guard (num 10)) (counting_body (num 1)))
      \<lparr>memory = M(''y'' \<mapsto> Number (num i)), console = c\<rparr>
    = Some (None, \<lparr>memory = M(''y'' \<mapsto> Number (num 10)), console = c\<rparr>)"
proof (induction "10 - i" arbitrary: i k)
  case 0
  then have i: "i = 10" by simp
  have "Expression_interpret H (memory \<lparr>memory = M(''y'' \<mapsto> Number (num 10)), console = c\<rparr>)
          (counting_guard (num 10)) = Inr (Boolean False)"
    using lt [of 10] by (simp add: counting_guard_def)
  then have "Statement_interpret H (Suc k)
      (While (counting_guard (num 10)) (counting_body (num 1)))
      \<lparr>memory = M(''y'' \<mapsto> Number (num 10)), console = c\<rparr>
    = Some (None, \<lparr>memory = M(''y'' \<mapsto> Number (num 10)), console = c\<rparr>)"
    by (rule While_falsy) simp
  then show ?case by (simp only: i)
next
  case (Suc d)
  then have i: "i < 10" and d: "d = 10 - Suc i" by simp_all
  from Suc obtain k' where k: "k = Suc k'" and k': "10 - Suc i \<le> k'"
    by (cases k) simp_all
  let ?s = "\<lparr>memory = M(''y'' \<mapsto> Number (num i)), console = c\<rparr>"
  let ?s1 = "\<lparr>memory = M(''y'' \<mapsto> Number (num (Suc i))), console = c\<rparr>"
  let ?W = "While (counting_guard (num 10)) (counting_body (num 1))"
  have guard: "Expression_interpret H (memory ?s) (counting_guard (num 10)) = Inr (Boolean True)"
    using lt [of i] i by (simp add: counting_guard_def)
  have body: "Block_interpret (Statement_interpret H (Suc k')) (counting_body (num 1)) ?s
      = Some (None, ?s1)"
    using add [of i] i by (simp add: counting_body_def)
  have "Statement_interpret H (Suc (Suc k')) ?W ?s = Statement_interpret H (Suc k') ?W ?s1"
    using guard _ body by (rule While_truthy) simp
  also have "\<dots> = Some (None, \<lparr>memory = M(''y'' \<mapsto> Number (num 10)), console = c\<rparr>)"
    using d i k' by (intro Suc.hyps(1)) simp_all
  finally show ?case by (simp only: k)
qed

lemma counting_program_run:
  assumes add: "\<And>i. i < 10 \<Longrightarrow> arithmetic H Add (num i) (num 1) = num (Suc i)"
    and lt: "\<And>i. i \<le> 10 \<Longrightarrow> relation H Lt (num i) (num 10) = (i < 10)"
    and k: "10 \<le> k"
  shows "map_option (\<lambda>(e, s). (e, console s))
      (interpret_program H (Suc k) (counting_program (num 0) (num 10) (num 1)))
    = Some (None, [Number (num 10)])"
proof -
  have "Statement_interpret H (Suc k) (While (counting_guard (num 10)) (counting_body (num 1)))
      \<lparr>memory = (set_builtins H Map.empty)(''y'' \<mapsto> Number (num 0)), console = []\<rparr>
    = Some (None, \<lparr>memory = (set_builtins H Map.empty)(''y'' \<mapsto> Number (num 10)), console = []\<rparr>)"
    using k by (intro counting_loop_from add lt) simp_all
  moreover have "\<not> Memory_has (set_builtins H Map.empty) ''y''"
    by (simp add: set_builtins_def pi_name_def)
  ultimately show ?thesis
    by (simp add: interpret_program_def initial_state_def counting_program_def)
qed

text \<open>
  Claim C5 as stated fails: a guard that is no boolean raises nothing. \<open>while (0) {}\<close>
  ends at once without an error, and \<open>y := 3; while (y) { y = y - 1 }; print(y)\<close>
  runs its body three times on the numbers 3, 2, 1 and prints 0.
\<close>

theorem While_counterexample:
  "Statement_interpret exact_host 1 (While (Numeral (Finite 0)) []) initial_state
     = Some (None, initial_state)
   \<and> map_option (\<lambda>(e, s). (e, console s))
       (interpret_program exact_host 5
          (Program [VariableDeclaration ''y'' (Numeral (Finite 3)),
                    While (Identifier ''y'')
                      [Assignment ''y'' (BinaryExp ''-'' (Identifier ''y'') (Numeral (Finite 1)))],
                    PrintStatement (Identifier ''y'')]))
     = Some (None, [Number (Finite 0)])"
proof (intro conjI)
  show "Statement_interpret exact_host 1 (While (Numeral (Finite 0)) []) initial_state
     = Some (None, initial_state)"
    by (simp add: exact_host_def)
qed code_simp

text \<open>
  Claim C5 as amended. \<open>While(cond, body)\<close> accepts any value of \<open>cond\<close> and tests
  its truthiness; it raises no type error. An error of \<open>cond\<close> ends the loop with that
  error. A falsy value ends the loop normally, with the state unchanged. After a truthy
  value the body is executed and, when it ends normally, the loop runs again from the new
  state, so \<open>cond\<close> is evaluated again. A loop that ends normally ends in a state where
  \<open>cond\<close> evaluates to a falsy value. Scenario 4 prints 10 and ends normally, with any
  fuel above 10, on every host whose numbers 0 to 10 add and compare as they should.
\<close>

theorem While_tests_truthiness:
  "(Expression_interpret H (memory s) c = Inl e \<longrightarrow>
      Statement_interpret H (Suc k) (While c b) s = Some (Some e, s))
   \<and> (Expression_interpret H (memory s) c = Inr v \<and> \<not> truthy H v \<longrightarrow>
      Statement_interpret H (Suc k) (While c b) s = Some (None, s))
   \<and> (Expression_interpret H (memory s) c = Inr v \<and> truthy H v
       \<and> Block_interpret (Statement_interpret H k) b s = Some (None, s1) \<longrightarrow>
      Statement_interpret H (Suc k) (While c b) s = Statement_interpret H k (While c b) s1)
   \<and> (Statement_interpret H k (While c b) s = Some (None, s') \<longrightarrow>
      (\<exists>v. Expression_interpret H (memory s') c = Inr v \<and> \<not> truthy H v))
   \<and> ((\<forall>i. i < 10 \<longrightarrow> arithmetic H Add (num i) (num 1) = num (Suc i))
       \<and> (\<forall>i. i \<le> 10 \<longrightarrow> relation H Lt (num i) (num 10) = (i < 10)) \<and> 10 \<le> k \<longrightarrow>
      map_option (\<lambda>(e, s). (e, console s))
        (interpret_program H (Suc k) (counting_program (num 0) (num 10) (num 1)))
      = Some (None, [Number (num 10)]))"
proof (intro conjI impI)
  assume "Statement_interpret H k (While c b) s = Some (None, s')"
  then show "\<exists>v. Expression_interpret H (memory s') c = Inr v \<and> \<not> truthy H v"
    by (rule While_normal_end)
next
  assume a: "(\<forall>i. i < 10 \<longrightarrow> arithmetic H Add (num i) (num 1) = num (Suc i))
    \<and> (\<forall>i. i \<le> 10 \<longrightarrow> relation H Lt (num i) (num 10) = (i < 10)) \<and> 10 \<le> k"
  show "map_option (\<lambda>(e, s). (e, console s))
      (interpret_program H (Suc k) (counting_program (num 0) (num 10) (num 1)))
    = Some (None, [Number (num 10)])"
    by (rule counting_program_run) (use a in simp_all)
qed simp_all

text \<open>
  Witness for C5, with the numbers of \<open>exact_host\<close>: the guard \<open>false\<close> ends the loop
  at once, and scenario 4 prints 10.
\<close>

theorem While_tests_truthiness_witness:
  "Expression_interpret exact_host (memory initial_state) (Bool False) = Inr (Boolean False)
   \<and> \<not> truthy exact_host (Boolean False)
   \<and> Statement_interpret exact_host (Suc 0) (While (Bool False) []) initial_state
       = Some (None, initial_state)
   \<and> map_option (\<lambda>(e, s). (e, console s))
       (interpret_program exact_host (Suc 10) (counting_program (Finite 0) (Finite 10) (Finite 1)))
     = Some (None, [Number (Finite 10)])"
proof -
  have add: "\<forall>i. i < 10 \<longrightarrow>
      arithmetic exact_host Add (Finite (of_nat i)) (Finite (of_nat 1)) = Finite (of_nat (Suc i))"
    by (simp add: exact_host_def add.commute)
  have lt: "\<forall>i. i \<le> 10 \<longrightarrow>
      relation exact_host Lt (Finite (of_nat i)) (Finite (of_nat 10)) = (i < 10)"
    by (simp add: exact_host_def)
  have loop: "map_option (\<lambda>(e, s). (e, console s))
       (interpret_program exact_host (Suc 10)
          (counting_program (Finite (of_nat 0)) (Finite (of_nat 10)) (Finite (of_nat 1))))
     = Some (None, [Number (Finite (of_nat 10))])"
    using add lt
      While_tests_truthiness
        [where H = exact_host and num = "\<lambda>i. Finite (of_nat i)" and k = 10]
    by blast
  have first: "Statement_interpret exact_host (Suc 0) (While (Bool False) []) initial_state
       = Some (None, initial_state)"
    using While_tests_truthiness
        [where H = exact_host and s = initial_state and c = "Bool False" and b = "[]"
           and v = "Boolean False" and k = 0]
    by simp
  from loop have "map_option (\<lambda>(e, s). (e, console s))
       (interpret_program exact_host (Suc 10) (counting_program (Finite 0) (Finite 10) (Finite 1)))
     = Some (None, [Number (Finite 10)])"
    by simp
  with first show ?thesis by simp
qed

section \<open>Arithmetic\<close>

text \<open>
  Claim C6. When both operands of a \<open>BinaryExp\<close> evaluate to numbers \<open>a\<close> and \<open>b\<close>,
  each of \<open>+\<close>, \<open>-\<close>, \<open>*\<close>, \<open>/\<close>, \<open>%\<close>, \<open>**\<close> yields the number the host
  computes from \<open>a\<close> and \<open>b\<close> with that operator, and never an error: the interpreter
  adds no check of its own, so a division by zero is what the host makes of it. When
  both operands evaluate and one of the values is no number, the result is the error
  \<open>Must be a number to use arithmetic operations\<close>, a type error. The host's arithmetic
  itself (IEEE-754 doubles in JavaScript) is the parameter \<open>arithmetic H\<close>.
\<close>

theorem BinaryExp_arithmetic:
  "(Expression_interpret H m l = Inr (Number a) \<and> Expression_interpret H m r = Inr (Number b) \<longrightarrow>
      Expression_interpret H m (BinaryExp ''+'' l r) = Inr (Number (arithmetic H Add a b))
    \<and> Expression_interpret H m (BinaryExp ''-'' l r) = Inr (Number (arithmetic H Sub a b))
    \<and> Expression_interpret H m (BinaryExp ''*'' l r) = Inr (Number (arithmetic H Mul a b))
    \<and> Expression_interpret H m (BinaryExp ''/'' l r) = Inr (Number (arithmetic H Div a b))
    \<and> Expression_interpret H m (BinaryExp ''%'' l r) = Inr (Number (arithmetic H Rem a b))
    \<and> Expression_interpret H m (BinaryExp ''**'' l r) = Inr (Number (arithmetic H Pow a b)))
   \<and> (Expression_interpret H m l = Inr u \<and> Expression_interpret H m r = Inr v
       \<and> (typeof u \<noteq> ''number'' \<or> typeof v \<noteq> ''number'') \<longrightarrow>
      Expression_interpret H m (BinaryExp op l r) = Inl Must_be_a_number
    \<and> kind Must_be_a_number = TypeError)"
  by (simp add: BinaryExp_operate_not_number)

text \<open>
  Witness for C6, with the numbers of \<open>exact_host\<close>: \<open>2 + 3\<close> is 5, \<open>1 / 0\<close> is
  infinity and \<open>0 / 0\<close> is NaN, neither an error; \<open>true + 1\<close> is a type error.
\<close>

theorem BinaryExp_arithmetic_witness:
  "Expression_interpret exact_host Map.empty (BinaryExp ''+'' (Numeral (Finite 2)) (Numeral (Finite 3)))
     = Inr (Number (Finite 5))
   \<and> Expression_interpret exact_host Map.empty (BinaryExp ''/'' (Numeral (Finite 1)) (Numeral (Finite 0)))
     = Inr (Number PosInfinity)
   \<and> Expression_interpret exact_host Map.empty (BinaryExp ''/'' (Numeral (Finite 0)) (Numeral (Finite 0)))
     = Inr (Number NaN)
   \<and> typeof (Boolean True :: number Value) \<noteq> ''number''
   \<and> Expression_interpret exact_host Map.empty (BinaryExp ''+'' (Bool True) (Numeral (Finite 1)))
     = Inl Must_be_a_number"
  using BinaryExp_arithmetic
          [where H = exact_host and m = Map.empty and l = "Numeral (Finite 2)" and a = "Finite 2"
             and r = "Numeral (Finite 3)" and b = "Finite 3"]
        BinaryExp_arithmetic
          [where H = exact_host and m = Map.empty and l = "Numeral (Finite 1)" and a = "Finite 1"
             and r = "Numeral (Finite 0)" and b = "Finite 0"]
        BinaryExp_arithmetic
          [where H = exact_host and m = Map.empty and l = "Numeral (Finite 0)" and a = "Finite 0"
             and r = "Numeral (Finite 0)" and b = "Finite 0"]
        BinaryExp_arithmetic
          [where H = exact_host and m = Map.empty and l = "Bool True" and u = "Boolean True"
             and r = "Numeral (Finite 1)" and v = "Number (Finite 1)" and op = "''+''"]
  by (simp add: exact_host_def)

section \<open>Declarations and assignments\<close>

text \<open>
  Claim C7. The memory of \<open>part_000\<close> is one global map, the only frame. A
  \<open>VariableDeclaration\<close> of a name the map has always fails with
  \<open>Variable already declared\<close> (a redeclaration error), and an \<open>Assignment\<close> to a name
  the map does not have always fails with \<open>Unknown variable\<close> (an unbound variable
  error). Otherwise, with \<open>v\<close> the value of the expression, the declaration binds the
  name to \<open>v\<close> and the assignment replaces the name's binding by \<open>v\<close>; nothing else
  changes.
\<close>

theorem declaration_and_assignment_checks:
  "(Memory_has (memory s) name \<longrightarrow>
      Statement_interpret H (Suc k) (VariableDeclaration name e) s
        = Some (Some (Variable_already_declared name), s)
    \<and> kind (Variable_already_declared name) = RedeclarationError)
   \<and> (\<not> Memory_has (memory s) name \<longrightarrow>
      Statement_interpret H (Suc k) (Assignment name e) s
        = Some (Some (Unknown_variable name), s)
    \<and> kind (Unknown_variable name) = UnboundVariableError)
   \<and> (\<not> Memory_has (memory s) name \<and> Expression_interpret H (memory s) e = Inr v \<longrightarrow>
      Statement_interpret H (Suc k) (VariableDeclaration name e) s
        = Some (None, s\<lparr>memory := (memory s)(name \<mapsto> v)\<rparr>))
   \<and> (Memory_has (memory s) name \<and> Expression_interpret H (memory s) e = Inr v \<longrightarrow>
      Statement_interpret H (Suc k) (Assignment name e) s
        = Some (None, s\<lparr>memory := (memory s)(name \<mapsto> v)\<rparr>))"
  by simp

text \<open>
  Witness for C7, in the state where only \<open>x\<close> is bound: \<open>x := 2\<close> and \<open>y = 2\<close> fail,
  \<open>y := 2\<close> binds \<open>y\<close> and \<open>x = 2\<close> rebinds \<open>x\<close>.
\<close>

theorem declaration_and_assignment_checks_witness:
  "Memory_has (memory x_is_one) ''x''
   \<and> Statement_interpret exact_host (Suc 0) (VariableDeclaration ''x'' (Numeral (Finite 2))) x_is_one
     = Some (Some (Variable_already_declared ''x''), x_is_one)
   \<and> \<not> Memory_has (memory x_is_one) ''y''
   \<and> Statement_interpret exact_host (Suc 0) (Assignment ''y'' (Numeral (Finite 2))) x_is_one
     = Some (Some (Unknown_variable ''y''), x_is_one)
   \<and> Statement_interpret exact_host (Suc 0) (VariableDeclaration ''y'' (Numeral (Finite 2))) x_is_one
     = Some (None, x_is_one\<lparr>memory := (memory x_is_one)(''y'' \<mapsto> Number (Finite 2))\<rparr>)
   \<and> Statement_interpret exact_host (Suc 0) (Assignment ''x'' (Numeral (Finite 2))) x_is_one
     = Some (None, x_is_one\<lparr>memory := (memory x_is_one)(''x'' \<mapsto> Number (Finite 2))\<rparr>)"
  using declaration_and_assignment_checks
          [where H = exact_host and s = x_is_one and name = "''x''" and k = 0
             and e = "Numeral (Finite 2)" and v = "Number (Finite 2)"]
        declaration_and_assignment_checks
          [where H = exact_host and s = x_is_one and name = "''y''" and k = 0
             and e = "Numeral (Finite 2)" and v = "Number (Finite 2)"]
  by (simp add: x_is_one_def)

text \<open>
  Claim C10. Both statements test the name before they evaluate the expression. When
  the test fails the statement ends with the test's error and the state it started in,
  whatever the expression is: the expression is not evaluated. In the second program of
  \<open>bella.ts\<close>, where evaluating an identifier writes a line, the console is unchanged
  too. When the test passes and the expression raises an error, the statement ends with
  that error and the memory it started with: no name is bound or rebound.
\<close>

theorem declaration_and_assignment_atomic:
  "(Memory_has (memory s) name \<longrightarrow>
      Statement_interpret H (Suc k) (VariableDeclaration name e) s
        = Some (Some (Variable_already_declared name), s))
   \<and> (\<not> Memory_has (memory s) name \<longrightarrow>
      Statement_interpret H (Suc k) (Assignment name e) s
        = Some (Some (Unknown_variable name), s))
   \<and> (\<not> Memory_has (memory s) name \<and> Expression_interpret H (memory s) e = Inl x \<longrightarrow>
      Statement_interpret H (Suc k) (VariableDeclaration name e) s = Some (Some x, s))
   \<and> (Memory_has (memory s) name \<and> Expression_interpret H (memory s) e = Inl x \<longrightarrow>
      Statement_interpret H (Suc k) (Assignment name e) s = Some (Some x, s))
   \<and> (Memory_has (B_memory t) name \<longrightarrow>
      B_Statement_interpret H (B_VariableDeclaration name e') t
        = (Some (Variable_already_declared name), t))
   \<and> (\<not> Memory_has (B_memory t) name \<longrightarrow>
      B_Statement_interpret H (B_Assignment name e') t = (Some (Unknown_variable name), t))
   \<and> (\<not> Memory_has (B_memory t) name \<and> B_Expression_interpret H (B_memory t) e' = (Inl x, out) \<longrightarrow>
      B_Statement_interpret H (B_VariableDeclaration name e') t
        = (Some x, t\<lparr>B_console := B_console t @ out\<rparr>))
   \<and> (Memory_has (B_memory t) name \<and> B_Expression_interpret H (B_memory t) e' = (Inl x, out) \<longrightarrow>
      B_Statement_interpret H (B_Assignment name e') t
        = (Some x, t\<lparr>B_console := B_console t @ out\<rparr>))"
  by simp

text \<open>
  Witness for C10, in the states where only \<open>x\<close> is bound. \<open>x := zz\<close> fails with the
  redeclaration error, not with the error of the unbound \<open>zz\<close>; \<open>y := zz\<close> and
  \<open>x = zz\<close> fail with the error of \<open>zz\<close> and leave the state as it was. In
  \<open>bella.ts\<close>, \<open>x := x\<close> fails before \<open>x\<close> is read and writes nothing, and
  \<open>x = x + zz\<close> fails with the memory unchanged after the two reads wrote their lines.
\<close>

theorem declaration_and_assignment_atomic_witness:
  "Memory_has (memory x_is_one) ''x''
   \<and> Statement_interpret exact_host (Suc 0) (VariableDeclaration ''x'' (Identifier ''zz'')) x_is_one
     = Some (Some (Variable_already_declared ''x''), x_is_one)
   \<and> \<not> Memory_has (memory x_is_one) ''y''
   \<and> Expression_interpret exact_host (memory x_is_one) (Identifier ''zz'')
     = Inl (Unknown_variable ''zz'')
   \<and> Statement_interpret exact_host (Suc 0) (VariableDeclaration ''y'' (Identifier ''zz'')) x_is_one
     = Some (Some (Unknown_variable ''zz''), x_is_one)
   \<and> Statement_interpret exact_host (Suc 0) (Assignment ''x'' (Identifier ''zz'')) x_is_one
     = Some (Some (Unknown_variable ''zz''), x_is_one)
   \<and> Statement_interpret exact_host (Suc 0) (Assignment ''y'' (Identifier ''zz'')) x_is_one
     = Some (Some (Unknown_variable ''y''), x_is_one)
   \<and> B_Statement_interpret exact_host (B_VariableDeclaration ''x'' (B_Identifier ''x'')) B_x_is_one
     = (Some (Variable_already_declared ''x''), B_x_is_one)
   \<and> B_Statement_interpret exact_host
        (B_Assignment ''x'' (B_BinaryExp ''+'' (B_Identifier ''x'') (B_Identifier ''zz''))) B_x_is_one
     = (Some (Unknown_variable ''zz''),
        B_x_is_one\<lparr>B_console := [Logged_text ''number'', Logged_text ''undefined'']\<rparr>)"
  using declaration_and_assignment_atomic
          [where H = exact_host and s = x_is_one and name = "''x''" and k = 0
             and e = "Identifier ''zz''" and x = "Unknown_variable ''zz''"
             and t = B_x_is_one and e' = "B_Identifier ''x''"]
        declaration_and_assignment_atomic
          [where H = exact_host and s = x_is_one and name = "''y''" and k = 0
             and e = "Identifier ''zz''" and x = "Unknown_variable ''zz''"]
        declaration_and_assignment_atomic
          [where H = exact_host and t = B_x_is_one and name = "''x''"
             and e' = "B_BinaryExp ''+'' (B_Identifier ''x'') (B_Identifier ''zz'')"
             and x = "Unknown_variable ''zz''"
             and out = "[Logged_text ''number'', Logged_text ''undefined'']"]
  by (simp add: x_is_one_def B_x_is_one_def B_eager_operators_def)

section \<open>The names of the host\<close>

text \<open>
  Claim C8 fails in the code for \<open>ln\<close>. \<open>Program.interpret\<close> binds \<open>ln\<close> to the
  number \<open>Math.LN10\<close>, not to a function, so a call of \<open>ln\<close> raises
  \<open>Value is not a function: ln\<close> (\<open>Unknown function: ln\<close> in \<open>bella.ts\<close>) and prints
  nothing. The name \<open>\<pi>\<close> is bound to the number \<open>Math.PI\<close>, as the claim says.
\<close>

theorem ln_is_bound_to_a_number:
  "set_builtins H m ''ln'' = Some (Number (Math_LN10 H))
   \<and> set_builtins H m pi_name = Some (Number (Math_PI H))
   \<and> Expression_interpret H (set_builtins H m) (Call ''ln'' [Numeral x])
       = Inl (Value_is_not_a_function ''ln'')
   \<and> map_option (\<lambda>(e, s). (e, console s))
       (interpret_program H (Suc k) (Program [PrintStatement (Call ''ln'' [Numeral x])]))
     = Some (Some (Value_is_not_a_function ''ln''), [])
   \<and> B_Program_interpret H (B_Program [B_PrintStatement (B_Call ''ln'' [B_Numeral x])])
     = (Some (Unknown_function ''ln''),
        \<lparr>B_memory = set_builtins H Map.empty, B_console = []\<rparr>)"
  by (simp add: interpret_program_def initial_state_def set_builtins_def pi_name_def)

section \<open>Effects of expressions\<close>

text \<open>
  Claim C9 (evaluating an expression has no observable effect) fails in the second
  program of \<open>bella.ts\<close>: \<open>Identifier.interpret\<close> there calls
  \<open>console.log(typeof value)\<close>. Reading a variable bound to a number writes the line
  \<open>number\<close>; \<open>print(\<pi>)\<close> writes that line before the value, and the declaration
  \<open>x := \<pi>\<close>, which prints nothing by itself, writes it too.
\<close>

theorem B_Identifier_writes_to_the_console:
  "B_Expression_interpret H (m(x \<mapsto> Number n)) (B_Identifier x)
     = (Inr (Number n), [Logged_text ''number''])
   \<and> B_console (snd (B_Program_interpret H (B_Program [B_PrintStatement (B_Identifier pi_name)])))
     = [Logged_text ''number'', Logged_value (Number (Math_PI H))]
   \<and> B_console (snd (B_Program_interpret H
        (B_Program [B_VariableDeclaration ''x'' (B_Identifier pi_name)])))
     = [Logged_text ''number'']"
  by (simp add: set_builtins_def pi_name_def)

end
